theory Spec2Isabelle
  imports Complex_Main "HOL-Library.Code_Target_Numeral"
begin

section \<open>JavaScript values\<close>

text \<open>
  The values that reach the two request handlers of \<^verbatim>\<open>puppeteer_server.js\<close>.
  A finite number is given by its value, \<open>Infinity True\<close> is the negative infinity;
  \<open>Fin 0\<close> stands for both zeros. A string is a list of code units below 256.
\<close>

datatype jsnum = NaN | Infinity bool | Fin rat

datatype jsval =
    JUndefined
  | JNull
  | JBool bool
  | JNum jsnum
  | JStr string
  | JArr "jsval list"
  | JObj "(string \<times> jsval) list"

text \<open>ToBoolean, as used by \<^verbatim>\<open>!url\<close> and \<^verbatim>\<open>if (useScraperAPI)\<close>.\<close>

fun truthy :: "jsval \<Rightarrow> bool" where
  "truthy JUndefined = False"
| "truthy JNull = False"
| "truthy (JBool b) = b"
| "truthy (JNum NaN) = False"
| "truthy (JNum (Infinity s)) = True"
| "truthy (JNum (Fin r)) = (r \<noteq> 0)"
| "truthy (JStr s) = (s \<noteq> [])"
| "truthy (JArr xs) = True"
| "truthy (JObj kvs) = True"

text \<open>
  Reading a property of \<^verbatim>\<open>req.body\<close>: an absent key reads as \<^verbatim>\<open>undefined\<close>.
  A destructuring default (\<^verbatim>\<open>waitFor = 2000\<close>) replaces \<^verbatim>\<open>undefined\<close> only.
\<close>

definition get_field :: "(string \<rightharpoonup> jsval) \<Rightarrow> string \<Rightarrow> jsval" where
  "get_field obj k = (case obj k of None \<Rightarrow> JUndefined | Some v \<Rightarrow> v)"

definition with_default :: "jsval \<Rightarrow> jsval \<Rightarrow> jsval" where
  "with_default v d = (if v = JUndefined then d else v)"

text \<open>Strict equality with a string literal, as in \<^verbatim>\<open>useScraperAPI === 'true'\<close>.\<close>

fun strict_eq_str :: "jsval \<Rightarrow> string \<Rightarrow> bool" where
  "strict_eq_str (JStr t) s = (t = s)"
| "strict_eq_str v s = False"

subsection \<open>Query-string values\<close>

text \<open>
  A value of \<^verbatim>\<open>req.query\<close> is a string, an array or a plain object; the query
  parser produces nothing else.
\<close>

datatype qval = QStr string | QArr "qval list" | QObj "(string \<times> qval) list"

primrec q2js :: "qval \<Rightarrow> jsval" where
  "q2js (QStr s) = JStr s"
| "q2js (QArr xs) = JArr (map q2js xs)"
| "q2js (QObj kvs) = JObj (map (map_prod id q2js) kvs)"

definition get_query :: "(string \<rightharpoonup> qval) \<Rightarrow> string \<Rightarrow> jsval" where
  "get_query q k = (case q k of None \<Rightarrow> JUndefined | Some v \<Rightarrow> q2js v)"

text \<open>
  A thrown value or a rejected promise carries an \<^verbatim>\<open>Error\<close>; the handlers read
  its \<^verbatim>\<open>message\<close> only.
\<close>

datatype error = Error (message: string)

fun join_comma :: "string list \<Rightarrow> string" where
  "join_comma [] = []"
| "join_comma [s] = s"
| "join_comma (s # t # ss) = s @ '','' @ join_comma (t # ss)"

text \<open>
  \<^verbatim>\<open>Array.prototype.join\<close> converts the elements from left to right: the first
  conversion that throws ends it.
\<close>

fun join_results :: "(error + string) list \<Rightarrow> error + string list" where
  "join_results [] = Inr []"
| "join_results (Inl err # rs) = Inl err"
| "join_results (Inr s # rs) =
     (case join_results rs of Inl err \<Rightarrow> Inl err | Inr ss \<Rightarrow> Inr (s # ss))"

text \<open>
  ToString of a query value. An array joins the strings of its elements. A plain object
  prints as \<^verbatim>\<open>[object Object]\<close> through the inherited \<^verbatim>\<open>toString\<close>; when the query gave
  it an own \<^verbatim>\<open>toString\<close> key (\<^verbatim>\<open>?waitFor[toString]=x\<close>), that property is not callable,
  \<^verbatim>\<open>valueOf\<close> gives no primitive either, and the conversion throws a TypeError.
\<close>

primrec qToString :: "qval \<Rightarrow> error + string" where
  "qToString (QStr s) = Inr s"
| "qToString (QArr xs) =
     (case join_results (map qToString xs) of
        Inl err \<Rightarrow> Inl err
      | Inr ss \<Rightarrow> Inr (join_comma ss))"
| "qToString (QObj kvs) =
     (if ''toString'' \<in> set (map fst kvs)
      then Inl (Error ''Cannot convert object to primitive value'')
      else Inr ''[object Object]'')"

subsection \<open>parseInt with no radix argument\<close>

text \<open>
  White space is skipped, then a sign, then \<^verbatim>\<open>0x\<close> or \<^verbatim>\<open>0X\<close> (which selects radix 16),
  and the longest run of digits is read. The white space of the model is the white space
  below 256; U+1680, U+2000 to U+200A, U+2028, U+2029, U+202F, U+205F, U+3000 and U+FEFF
  are not strings of the model.
\<close>

definition isWhiteSpace :: "char \<Rightarrow> bool" where
  "isWhiteSpace c = (c \<in> set [CHR 0x09, CHR 0x0A, CHR 0x0B, CHR 0x0C, CHR 0x0D, CHR 0x20, CHR 0xA0])"

definition digitVal :: "char \<Rightarrow> nat option" where
  "digitVal c =
     (let n = of_char c :: nat in
      if 48 \<le> n \<and> n \<le> 57 then Some (n - 48)
      else if 97 \<le> n \<and> n \<le> 122 then Some (n - 87)
      else if 65 \<le> n \<and> n \<le> 90 then Some (n - 55)
      else None)"

definition isRadixDigit :: "nat \<Rightarrow> char \<Rightarrow> bool" where
  "isRadixDigit R c = (case digitVal c of None \<Rightarrow> False | Some d \<Rightarrow> d < R)"

definition digitsValue :: "nat \<Rightarrow> string \<Rightarrow> nat" where
  "digitsValue R Z = foldl (\<lambda>a c. a * R + (case digitVal c of None \<Rightarrow> 0 | Some d \<Rightarrow> d)) 0 Z"

text \<open>
  The result is a Number: the integer read is rounded to the nearest double, ties to
  even, and overflows to an infinity (ECMAScript leaves the digits of a decimal after the
  20th to the engine; V8 rounds the whole integer). An integer below \<open>2 ^ 53\<close> is a
  double. A larger one keeps its 53 leading bits \<open>q\<close>, rounded by the remaining bits
  \<open>r\<close>; \<open>None\<close> is the overflow, from \<open>2 ^ 1024\<close> on.
\<close>

fun bitlen :: "nat \<Rightarrow> nat" where
  "bitlen n = (if n = 0 then 0 else Suc (bitlen (n div 2)))"

definition roundToDouble :: "nat \<Rightarrow> nat option" where
  "roundToDouble n =
     (if n < 2 ^ 53 then Some n
      else
        (let e = bitlen n - 53;
             q = n div 2 ^ e;
             r = n mod 2 ^ e;
             half = 2 ^ (e - 1);
             q' = (if half < r \<or> (r = half \<and> odd q) then q + 1 else q);
             m = q' * 2 ^ e
         in if 2 ^ 1024 \<le> m then None else Some m))"

definition parseInt :: "string \<Rightarrow> jsnum" where
  "parseInt inputString =
     (let S = dropWhile isWhiteSpace inputString;
          sign = (if S \<noteq> [] \<and> hd S = CHR ''-'' then - 1 else 1 :: int);
          S1 = (if S \<noteq> [] \<and> (hd S = CHR ''+'' \<or> hd S = CHR ''-'') then tl S else S);
          hex = (take 2 S1 = ''0x'' \<or> take 2 S1 = ''0X'');
          R = (if hex then 16 else 10 :: nat);
          S2 = (if hex then drop 2 S1 else S1);
          Z = takeWhile (isRadixDigit R) S2
      in if Z = [] then NaN
         else (case roundToDouble (digitsValue R Z) of
                 None \<Rightarrow> Infinity (sign < 0)
               | Some m \<Rightarrow> Fin (of_int (sign * int m))))"

section \<open>The outside world\<close>

text \<open>
  What a run does to the outside world, in order. \<open>CallPuppeteer\<close> and
  \<open>CallScraperAPI\<close> mark the entry into \<^verbatim>\<open>scrapeWithPuppeteer(url, waitFor)\<close> and
  \<^verbatim>\<open>scrapeWithScraperAPI(url)\<close> with their arguments.
\<close>

datatype event =
    CallPuppeteer jsval jsval
  | Launch
  | NewPage
  | SetViewport nat nat
  | SetUserAgent string
  | Goto jsval
  | WaitForTimeout jsval
  | Content
  | PageClose
  | BrowserClose
  | CallScraperAPI jsval
  | AxiosGet string
  | ConsoleError string string
  | ConsoleLog string

text \<open>
  The outcome of every external operation of one request: \<open>None\<close> is a promise
  that resolves, \<open>Some e\<close> one that rejects with \<open>e\<close>. Each operation is reached at
  most once while a request is handled, so one outcome per operation (and argument)
  describes any behaviour of the browser, the remote service and the clock.
\<close>

record env =
  env_SCRAPERAPI_KEY :: "string option"
  launch :: "error option"
  newPage :: "error option"
  setViewport :: "error option"
  setUserAgent :: "error option"
  goto :: "jsval \<Rightarrow> error option"
  waitForTimeout :: "jsval \<Rightarrow> error option"
  content :: "error + string"
  page_close :: "error option"
  browser_close :: "error option"
  encodeURIComponent :: "jsval \<Rightarrow> error + string"
  axios_get :: "string \<Rightarrow> error + jsval"
  now_ISO :: string

text \<open>\<^verbatim>\<open>process.env.SCRAPERAPI_KEY || '08ed...'\<close>: an unset or empty variable gives the default.\<close>

definition SCRAPERAPI_KEY :: "env \<Rightarrow> string" where
  "SCRAPERAPI_KEY e =
     (case env_SCRAPERAPI_KEY e of
        None \<Rightarrow> ''08edc78925c0c8f893dc1ec88e4611a4''
      | Some k \<Rightarrow> if k = [] then ''08edc78925c0c8f893dc1ec88e4611a4'' else k)"

subsection \<open>Awaited operations\<close>

type_synonym 'a outcome = "(error + 'a) \<times> event list"

definition emit :: "event \<Rightarrow> unit outcome" where
  "emit ev = (Inr (), [ev])"

definition step :: "event \<Rightarrow> error option \<Rightarrow> unit outcome" where
  "step ev r = ((case r of None \<Rightarrow> Inr () | Some e \<Rightarrow> Inl e), [ev])"

text \<open>Sequencing: a rejection skips the rest of the block.\<close>

definition andThen :: "'a outcome \<Rightarrow> ('a \<Rightarrow> 'b outcome) \<Rightarrow> 'b outcome" where
  "andThen m f =
     (case m of
        (Inl e, t) \<Rightarrow> (Inl e, t)
      | (Inr x, t) \<Rightarrow> (case f x of (r, t') \<Rightarrow> (r, t @ t')))"

text \<open>
  \<^verbatim>\<open>try { body } finally { fin }\<close>: \<open>fin\<close> runs on both exits of \<open>body\<close>;
  an error of \<open>fin\<close> replaces the completion of \<open>body\<close>.
\<close>

definition try_finally :: "'a outcome \<Rightarrow> unit outcome \<Rightarrow> 'a outcome" where
  "try_finally body fin =
     (case body of (r, t) \<Rightarrow>
        (case fin of
           (Inl e, t') \<Rightarrow> (Inl e, t @ t')
         | (Inr u, t') \<Rightarrow> (r, t @ t')))"

section \<open>The two strategies\<close>

definition scrapeWithPuppeteer :: "env \<Rightarrow> jsval \<Rightarrow> jsval \<Rightarrow> jsval outcome" where
  "scrapeWithPuppeteer e url waitFor =
     andThen (emit (CallPuppeteer url waitFor)) (\<lambda>_.
     andThen (step Launch (launch e)) (\<lambda>_.
     andThen (step NewPage (newPage e)) (\<lambda>_.
     try_finally
       (andThen (step (SetViewport 1920 1080) (setViewport e)) (\<lambda>_.
        andThen (step (SetUserAgent ''Mozilla/5.0 (Windows NT 10.0; Win64; x64) AppleWebKit/537.36 (KHTML, like Gecko) Chrome/120.0.0.0 Safari/537.36'') (setUserAgent e)) (\<lambda>_.
        andThen (step (Goto url) (goto e url)) (\<lambda>_.
        andThen (step (WaitForTimeout waitFor) (waitForTimeout e waitFor)) (\<lambda>_.
        (map_sum id JStr (content e), [Content]))))))
       (andThen (step PageClose (page_close e)) (\<lambda>_.
        step BrowserClose (browser_close e))))))"

definition scrapeWithScraperAPI :: "env \<Rightarrow> jsval \<Rightarrow> jsval outcome" where
  "scrapeWithScraperAPI e url =
     andThen (emit (CallScraperAPI url)) (\<lambda>_.
     andThen (encodeURIComponent e url, []) (\<lambda>enc.
       (let scraperUrl = ''http://api.scraperapi.com?api_key='' @ SCRAPERAPI_KEY e @ ''&url='' @ enc
        in (axios_get e scraperUrl, [AxiosGet scraperUrl]))))"

section \<open>The request handlers\<close>

record response =
  status :: nat
  body :: "(string \<times> jsval) list"

definition json :: "(string \<times> jsval) list \<Rightarrow> response" where
  "json b = \<lparr>status = 200, body = b\<rparr>"

definition status_json :: "nat \<Rightarrow> (string \<times> jsval) list \<Rightarrow> response" where
  "status_json c b = \<lparr>status = c, body = b\<rparr>"

text \<open>
  \<^verbatim>\<open>const { url, waitFor = 2000, useScraperAPI = false } = req.body\<close>, where
  \<^verbatim>\<open>req.body\<close> is the object that \<^verbatim>\<open>express.json()\<close> or \<^verbatim>\<open>express.urlencoded()\<close>
  parsed (the empty object when the request has no body).
\<close>

definition body_url :: "(string \<rightharpoonup> jsval) \<Rightarrow> jsval" where
  "body_url req_body = get_field req_body ''url''"

definition body_waitFor :: "(string \<rightharpoonup> jsval) \<Rightarrow> jsval" where
  "body_waitFor req_body = with_default (get_field req_body ''waitFor'') (JNum (Fin 2000))"

definition body_useScraperAPI :: "(string \<rightharpoonup> jsval) \<Rightarrow> jsval" where
  "body_useScraperAPI req_body = with_default (get_field req_body ''useScraperAPI'') (JBool False)"

text \<open>\<^verbatim>\<open>app.post('/render', ...)\<close>\<close>

definition post_render :: "env \<Rightarrow> (string \<rightharpoonup> jsval) \<Rightarrow> response \<times> event list" where
  "post_render e req_body =
     (let url = body_url req_body;
          waitFor = body_waitFor req_body;
          useScraperAPI = body_useScraperAPI req_body
      in
      if \<not> truthy url then (status_json 400 [(''error'', JStr ''URL is required'')], [])
      else
        (case (if truthy useScraperAPI then scrapeWithScraperAPI e url
               else scrapeWithPuppeteer e url waitFor) of
           (Inr html, t) \<Rightarrow>
             (json [(''success'', JBool True),
                    (''url'', url),
                    (''html'', html),
                    (''method'', JStr (if truthy useScraperAPI then ''ScraperAPI'' else ''Puppeteer'')),
                    (''timestamp'', JStr (now_ISO e))], t)
         | (Inl err, t) \<Rightarrow>
             (let t1 = t @ [ConsoleError ''Scraping error:'' (message err)] in
              if \<not> truthy useScraperAPI then
                (case andThen (emit (ConsoleLog ''Puppeteer failed, falling back to ScraperAPI...''))
                        (\<lambda>_. scrapeWithScraperAPI e url) of
                   (Inr html, t2) \<Rightarrow>
                     (json [(''success'', JBool True),
                            (''url'', url),
                            (''html'', html),
                            (''method'', JStr ''ScraperAPI (fallback)''),
                            (''warning'', JStr ''Puppeteer failed, used fallback''),
                            (''timestamp'', JStr (now_ISO e))], t1 @ t2)
                 | (Inl fallbackError, t2) \<Rightarrow>
                     (status_json 500
                        [(''error'', JStr ''Both Puppeteer and ScraperAPI failed''),
                         (''puppeteerError'', JStr (message err)),
                         (''scraperApiError'', JStr (message fallbackError))], t1 @ t2))
              else
                (status_json 500
                   [(''error'', JStr ''Scraping failed''),
                    (''message'', JStr (message err))], t1))))"

text \<open>
  \<^verbatim>\<open>const { url, waitFor = 2000, useScraperAPI = false } = req.query\<close>.
  \<^verbatim>\<open>parseInt\<close> converts its argument to a string first: the default \<^verbatim>\<open>2000\<close> prints
  as \<open>''2000''\<close>.
\<close>

definition query_url :: "(string \<rightharpoonup> qval) \<Rightarrow> jsval" where
  "query_url req_query = get_query req_query ''url''"

definition query_useScraperAPI :: "(string \<rightharpoonup> qval) \<Rightarrow> jsval" where
  "query_useScraperAPI req_query = with_default (get_query req_query ''useScraperAPI'') (JBool False)"

text \<open>
  \<^verbatim>\<open>parseInt(waitFor)\<close>, the argument of the primary branch. It is evaluated before
  \<^verbatim>\<open>scrapeWithPuppeteer\<close> is entered, and it throws when the conversion of \<^verbatim>\<open>waitFor\<close>
  to a string does.
\<close>

definition query_parseInt_waitFor :: "(string \<rightharpoonup> qval) \<Rightarrow> error + jsnum" where
  "query_parseInt_waitFor req_query =
     (case req_query ''waitFor'' of
        None \<Rightarrow> Inr (parseInt ''2000'')
      | Some w \<Rightarrow> map_sum id parseInt (qToString w))"

text \<open>\<^verbatim>\<open>app.get('/scrape', ...)\<close>\<close>

definition get_scrape :: "env \<Rightarrow> (string \<rightharpoonup> qval) \<Rightarrow> response \<times> event list" where
  "get_scrape e req_query =
     (let url = query_url req_query;
          useScraperAPI = query_useScraperAPI req_query
      in
      if \<not> truthy url then (status_json 400 [(''error'', JStr ''URL parameter is required'')], [])
      else
        (case (if strict_eq_str useScraperAPI ''true'' then scrapeWithScraperAPI e url
               else andThen (query_parseInt_waitFor req_query, [])
                      (\<lambda>n. scrapeWithPuppeteer e url (JNum n))) of
           (Inr html, t) \<Rightarrow>
             (json [(''success'', JBool True),
                    (''url'', url),
                    (''html'', html),
                    (''method'', JStr (if strict_eq_str useScraperAPI ''true'' then ''ScraperAPI'' else ''Puppeteer'')),
                    (''timestamp'', JStr (now_ISO e))], t)
         | (Inl err, t) \<Rightarrow>
             (status_json 500
                [(''error'', JStr ''Scraping failed''),
                 (''message'', JStr (message err))],
              t @ [ConsoleError ''GET scraping error:'' (message err)])))"

section \<open>Observing a run\<close>

fun is_primary_call :: "event \<Rightarrow> bool" where
  "is_primary_call (CallPuppeteer u w) = True"
| "is_primary_call ev = False"

fun is_fallback_call :: "event \<Rightarrow> bool" where
  "is_fallback_call (CallScraperAPI u) = True"
| "is_fallback_call ev = False"

definition primary_calls :: "event list \<Rightarrow> event list" where
  "primary_calls t = filter is_primary_call t"

definition fallback_calls :: "event list \<Rightarrow> event list" where
  "fallback_calls t = filter is_fallback_call t"

subsection \<open>Sample worlds\<close>

definition env_ok :: env where
  "env_ok =
     \<lparr>env_SCRAPERAPI_KEY = None,
      launch = None, newPage = None, setViewport = None, setUserAgent = None,
      goto = (\<lambda>u. None), waitForTimeout = (\<lambda>w. None),
      content = Inr ''<html><body>rendered</body></html>'',
      page_close = None, browser_close = None,
      encodeURIComponent = (\<lambda>u. Inr ''https%3A%2F%2Fexample.com''),
      axios_get = (\<lambda>u. Inr (JStr ''<html><body>remote</body></html>'')),
      now_ISO = ''2024-01-01T00:00:00.000Z''\<rparr>"

definition env_goto_fails :: env where
  "env_goto_fails = env_ok\<lparr>goto := (\<lambda>u. Some (Error ''net::ERR_NAME_NOT_RESOLVED''))\<rparr>"

definition env_remote_fails :: env where
  "env_remote_fails = env_ok\<lparr>axios_get := (\<lambda>u. Inl (Error ''Request failed with status code 500''))\<rparr>"

definition env_both_fail :: env where
  "env_both_fail = env_goto_fails\<lparr>axios_get := (\<lambda>u. Inl (Error ''Request failed with status code 500''))\<rparr>"

definition env_newPage_fails :: env where
  "env_newPage_fails = env_ok\<lparr>newPage := Some (Error ''Protocol error (Target.createTarget)'')\<rparr>"

definition env_page_close_fails :: env where
  "env_page_close_fails = env_ok\<lparr>page_close := Some (Error ''Protocol error: Connection closed'')\<rparr>"

definition example_url :: jsval where
  "example_url = JStr ''https://example.com''"

definition req_plain :: "string \<rightharpoonup> jsval" where
  "req_plain = [''url'' \<mapsto> example_url]"

definition req_forced :: "string \<rightharpoonup> jsval" where
  "req_forced = [''url'' \<mapsto> example_url, ''useScraperAPI'' \<mapsto> JBool True]"

definition query_plain :: "string \<rightharpoonup> qval" where
  "query_plain = [''url'' \<mapsto> QStr ''https://example.com'']"

definition query_forced :: "string \<rightharpoonup> qval" where
  "query_forced = [''url'' \<mapsto> QStr ''https://example.com'', ''useScraperAPI'' \<mapsto> QStr ''true'']"

definition query_with_flag :: "string \<Rightarrow> (string \<rightharpoonup> qval)" where
  "query_with_flag f = [''url'' \<mapsto> QStr ''https://example.com'', ''useScraperAPI'' \<mapsto> QStr f]"

definition query_with_wait :: "string \<Rightarrow> (string \<rightharpoonup> qval)" where
  "query_with_wait w = [''url'' \<mapsto> QStr ''https://example.com'', ''waitFor'' \<mapsto> QStr w]"

definition req_with_wait :: "jsval \<Rightarrow> (string \<rightharpoonup> jsval)" where
  "req_with_wait w = [''url'' \<mapsto> example_url, ''waitFor'' \<mapsto> w]"

text \<open>\<^verbatim>\<open>?url=https://example.com&useScraperAPI=f&waitFor[toString]=x\<close>\<close>

definition query_toString_wait :: "string \<Rightarrow> (string \<rightharpoonup> qval)" where
  "query_toString_wait f =
     [''url'' \<mapsto> QStr ''https://example.com'', ''useScraperAPI'' \<mapsto> QStr f,
      ''waitFor'' \<mapsto> QObj [(''toString'', QStr ''x'')]]"

text \<open>
  The \<^verbatim>\<open>waitFor\<close> arguments with which a run enters \<^verbatim>\<open>scrapeWithPuppeteer\<close>, and the
  arguments it hands to \<^verbatim>\<open>page.waitForTimeout\<close>.
\<close>

fun call_wait :: "event \<Rightarrow> jsval list" where
  "call_wait (CallPuppeteer u w) = [w]"
| "call_wait ev = []"

definition wait_args :: "event list \<Rightarrow> jsval list" where
  "wait_args t = concat (map call_wait t)"

fun timeout_wait :: "event \<Rightarrow> jsval list" where
  "timeout_wait (WaitForTimeout w) = [w]"
| "timeout_wait ev = []"

definition timeout_args :: "event list \<Rightarrow> jsval list" where
  "timeout_args t = concat (map timeout_wait t)"

text \<open>A non-negative integer number (of milliseconds).\<close>

fun is_nonneg_int_ms :: "jsval \<Rightarrow> bool" where
  "is_nonneg_int_ms (JNum (Fin r)) = (0 \<le> r \<and> r = of_int \<lfloor>r\<rfloor>)"
| "is_nonneg_int_ms v = False"

section \<open>Which strategy a run enters\<close>

lemmas run_defs =
  scrapeWithPuppeteer_def scrapeWithScraperAPI_def andThen_def try_finally_def
  step_def emit_def SCRAPERAPI_KEY_def

lemmas sample_defs =
  env_ok_def env_goto_fails_def env_remote_fails_def env_both_fail_def
  env_newPage_fails_def env_page_close_fails_def example_url_def
  req_plain_def req_forced_def query_plain_def query_forced_def
  query_with_flag_def query_with_wait_def req_with_wait_def query_toString_wait_def

lemmas request_defs =
  body_url_def body_waitFor_def body_useScraperAPI_def get_field_def with_default_def
  query_url_def query_useScraperAPI_def query_parseInt_waitFor_def get_query_def

lemma puppeteer_fallback_calls [simp]:
  "fallback_calls (snd (scrapeWithPuppeteer e u w)) = []"
  by (auto simp: fallback_calls_def scrapeWithPuppeteer_def andThen_def try_finally_def
        step_def emit_def split: option.splits sum.splits prod.splits)

lemma puppeteer_primary_calls [simp]:
  "primary_calls (snd (scrapeWithPuppeteer e u w)) = [CallPuppeteer u w]"
  by (auto simp: primary_calls_def scrapeWithPuppeteer_def andThen_def try_finally_def
        step_def emit_def split: option.splits sum.splits prod.splits)

lemma scraper_primary_calls [simp]:
  "primary_calls (snd (scrapeWithScraperAPI e u)) = []"
  by (auto simp: primary_calls_def scrapeWithScraperAPI_def andThen_def emit_def Let_def
        split: sum.splits prod.splits)

lemma scraper_fallback_calls [simp]:
  "fallback_calls (snd (scrapeWithScraperAPI e u)) = [CallScraperAPI u]"
  by (auto simp: fallback_calls_def scrapeWithScraperAPI_def andThen_def emit_def Let_def
        split: sum.splits prod.splits)

lemma calls_append [simp]:
  "primary_calls (s @ t) = primary_calls s @ primary_calls t"
  "fallback_calls (s @ t) = fallback_calls s @ fallback_calls t"
  by (simp_all add: primary_calls_def fallback_calls_def)

lemma calls_console [simp]:
  "primary_calls (ConsoleError l m # t) = primary_calls t"
  "primary_calls (ConsoleLog m # t) = primary_calls t"
  "fallback_calls (ConsoleError l m # t) = fallback_calls t"
  "fallback_calls (ConsoleLog m # t) = fallback_calls t"
  "primary_calls [] = []"
  "fallback_calls [] = []"
  by (simp_all add: primary_calls_def fallback_calls_def)

lemma log_then [simp]: "andThen (emit ev) (\<lambda>_. m) = (fst m, ev # snd m)"
  by (cases m) (simp add: andThen_def emit_def)

lemma puppeteer_run_calls:
  assumes "scrapeWithPuppeteer e u w = (r, t)"
  shows "fallback_calls t = []" and "primary_calls t = [CallPuppeteer u w]"
  using puppeteer_fallback_calls [of e u w] puppeteer_primary_calls [of e u w]
  by (simp_all add: assms)

lemma scraper_run_calls:
  assumes "scrapeWithScraperAPI e u = (r, t)"
  shows "fallback_calls t = [CallScraperAPI u]" and "primary_calls t = []"
  using scraper_fallback_calls [of e u] scraper_primary_calls [of e u]
  by (simp_all add: assms)

text \<open>The sample runs used below.\<close>

lemma sample_primary_goto_fails:
  "\<exists>t. scrapeWithPuppeteer env_goto_fails example_url (JNum (Fin 2000)) =
         (Inl (Error ''net::ERR_NAME_NOT_RESOLVED''), t)"
  by (simp add: run_defs sample_defs)

lemma sample_primary_both_fail:
  "\<exists>t. scrapeWithPuppeteer env_both_fail example_url (JNum (Fin 2000)) =
         (Inl (Error ''net::ERR_NAME_NOT_RESOLVED''), t)"
  by (simp add: run_defs sample_defs)

lemma sample_primary_ok:
  "\<exists>t. scrapeWithPuppeteer env_ok example_url w =
         (Inr (JStr ''<html><body>rendered</body></html>''), t)"
  by (simp add: run_defs sample_defs)

lemma sample_fallback_ok:
  "\<exists>t. scrapeWithScraperAPI env_goto_fails example_url =
         (Inr (JStr ''<html><body>remote</body></html>''), t)"
  "\<exists>t. scrapeWithScraperAPI env_ok example_url =
         (Inr (JStr ''<html><body>remote</body></html>''), t)"
  by (simp_all add: run_defs sample_defs)

lemma sample_fallback_fails:
  "\<exists>t. scrapeWithScraperAPI env_both_fail example_url =
         (Inl (Error ''Request failed with status code 500''), t)"
  "\<exists>t. scrapeWithScraperAPI env_remote_fails example_url =
         (Inl (Error ''Request failed with status code 500''), t)"
  by (simp_all add: run_defs sample_defs)

lemmas parseInt_defs =
  parseInt_def isWhiteSpace_def isRadixDigit_def digitVal_def digitsValue_def
  roundToDouble_def Let_def

lemma parseInt_samples:
  "parseInt ''2000'' = Fin 2000"
  "parseInt ''abc'' = NaN"
  "parseInt ''-5'' = Fin (- 5)"
  "parseInt ''12px'' = Fin 12"
  by (simp_all add: parseInt_defs)

lemma sample_parse [simp]:
  "query_parseInt_waitFor query_plain = Inr (Fin 2000)"
  "query_parseInt_waitFor query_forced = Inr (Fin 2000)"
  "query_parseInt_waitFor (query_with_flag f) = Inr (Fin 2000)"
  "query_parseInt_waitFor (query_with_wait s) = Inr (parseInt s)"
  "query_parseInt_waitFor (query_toString_wait f)
     = Inl (Error ''Cannot convert object to primitive value'')"
  by (simp_all add: query_parseInt_waitFor_def sample_defs parseInt_samples)

lemma sample_requests [simp]:
  "body_url req_plain = example_url"
  "body_waitFor req_plain = JNum (Fin 2000)"
  "body_useScraperAPI req_plain = JBool False"
  "body_url req_forced = example_url"
  "body_useScraperAPI req_forced = JBool True"
  "query_url query_plain = example_url"
  "query_useScraperAPI query_plain = JBool False"
  "query_url query_forced = example_url"
  "query_useScraperAPI query_forced = JStr ''true''"
  "truthy example_url"
  by (simp_all add: request_defs sample_defs)

section \<open>The paths through the handlers\<close>

lemma post_render_no_url:
  assumes "\<not> truthy (body_url b)"
  shows "post_render e b = (\<lparr>status = 400, body = [(''error'', JStr ''URL is required'')]\<rparr>, [])"
  using assms by (simp add: post_render_def Let_def status_json_def)

lemma post_render_forced:
  assumes "truthy (body_url b)" and "truthy (body_useScraperAPI b)"
    and "scrapeWithScraperAPI e (body_url b) = (r, t)"
  shows "post_render e b =
     (case r of
        Inr html \<Rightarrow>
          (\<lparr>status = 200,
            body = [(''success'', JBool True), (''url'', body_url b), (''html'', html),
                    (''method'', JStr ''ScraperAPI''), (''timestamp'', JStr (now_ISO e))]\<rparr>, t)
      | Inl err \<Rightarrow>
          (\<lparr>status = 500,
            body = [(''error'', JStr ''Scraping failed''), (''message'', JStr (message err))]\<rparr>,
           t @ [ConsoleError ''Scraping error:'' (message err)]))"
  using assms by (simp add: post_render_def Let_def status_json_def json_def split: sum.splits)

lemma post_render_primary_ok:
  assumes "truthy (body_url b)" and "\<not> truthy (body_useScraperAPI b)"
    and "scrapeWithPuppeteer e (body_url b) (body_waitFor b) = (Inr html, t)"
  shows "post_render e b =
     (\<lparr>status = 200,
       body = [(''success'', JBool True), (''url'', body_url b), (''html'', html),
               (''method'', JStr ''Puppeteer''), (''timestamp'', JStr (now_ISO e))]\<rparr>, t)"
  using assms by (simp add: post_render_def Let_def json_def)

lemma post_render_primary_fails:
  assumes "truthy (body_url b)" and "\<not> truthy (body_useScraperAPI b)"
    and "scrapeWithPuppeteer e (body_url b) (body_waitFor b) = (Inl perr, tp)"
    and "scrapeWithScraperAPI e (body_url b) = (r, tf)"
  shows "post_render e b =
     ((case r of
         Inr html \<Rightarrow>
           \<lparr>status = 200,
            body = [(''success'', JBool True), (''url'', body_url b), (''html'', html),
                    (''method'', JStr ''ScraperAPI (fallback)''),
                    (''warning'', JStr ''Puppeteer failed, used fallback''),
                    (''timestamp'', JStr (now_ISO e))]\<rparr>
       | Inl ferr \<Rightarrow>
           \<lparr>status = 500,
            body = [(''error'', JStr ''Both Puppeteer and ScraperAPI failed''),
                    (''puppeteerError'', JStr (message perr)),
                    (''scraperApiError'', JStr (message ferr))]\<rparr>),
      tp @ [ConsoleError ''Scraping error:'' (message perr),
            ConsoleLog ''Puppeteer failed, falling back to ScraperAPI...''] @ tf)"
  using assms by (simp add: post_render_def Let_def status_json_def json_def split: sum.splits)

lemma get_scrape_no_url:
  assumes "\<not> truthy (query_url q)"
  shows "get_scrape e q =
     (\<lparr>status = 400, body = [(''error'', JStr ''URL parameter is required'')]\<rparr>, [])"
  using assms by (simp add: get_scrape_def Let_def status_json_def)

lemma get_scrape_forced:
  assumes "truthy (query_url q)" and "strict_eq_str (query_useScraperAPI q) ''true''"
    and "scrapeWithScraperAPI e (query_url q) = (r, t)"
  shows "get_scrape e q =
     (case r of
        Inr html \<Rightarrow>
          (\<lparr>status = 200,
            body = [(''success'', JBool True), (''url'', query_url q), (''html'', html),
                    (''method'', JStr ''ScraperAPI''), (''timestamp'', JStr (now_ISO e))]\<rparr>, t)
      | Inl err \<Rightarrow>
          (\<lparr>status = 500,
            body = [(''error'', JStr ''Scraping failed''), (''message'', JStr (message err))]\<rparr>,
           t @ [ConsoleError ''GET scraping error:'' (message err)]))"
  using assms by (simp add: get_scrape_def Let_def status_json_def json_def split: sum.splits)

lemma get_scrape_primary:
  assumes "truthy (query_url q)" and "\<not> strict_eq_str (query_useScraperAPI q) ''true''"
    and "query_parseInt_waitFor q = Inr n"
    and "scrapeWithPuppeteer e (query_url q) (JNum n) = (r, t)"
  shows "get_scrape e q =
     (case r of
        Inr html \<Rightarrow>
          (\<lparr>status = 200,
            body = [(''success'', JBool True), (''url'', query_url q), (''html'', html),
                    (''method'', JStr ''Puppeteer''), (''timestamp'', JStr (now_ISO e))]\<rparr>, t)
      | Inl err \<Rightarrow>
          (\<lparr>status = 500,
            body = [(''error'', JStr ''Scraping failed''), (''message'', JStr (message err))]\<rparr>,
           t @ [ConsoleError ''GET scraping error:'' (message err)]))"
  using assms
  by (simp add: get_scrape_def Let_def andThen_def status_json_def json_def split: sum.splits)

text \<open>When \<^verbatim>\<open>parseInt(waitFor)\<close> throws, the \<^verbatim>\<open>catch\<close> answers and no strategy has run.\<close>

lemma get_scrape_parse_throws:
  assumes "truthy (query_url q)" and "\<not> strict_eq_str (query_useScraperAPI q) ''true''"
    and "query_parseInt_waitFor q = Inl err"
  shows "get_scrape e q =
     (\<lparr>status = 500,
       body = [(''error'', JStr ''Scraping failed''), (''message'', JStr (message err))]\<rparr>,
      [ConsoleError ''GET scraping error:'' (message err)])"
  using assms
  by (simp add: get_scrape_def Let_def andThen_def status_json_def)

lemma get_scrape_primary_calls:
  assumes url: "truthy (query_url q)"
    and flag: "\<not> strict_eq_str (query_useScraperAPI q) ''true''"
  shows "fallback_calls (snd (get_scrape e q)) = []"
    and "query_parseInt_waitFor q = Inr n \<Longrightarrow>
           primary_calls (snd (get_scrape e q)) = [CallPuppeteer (query_url q) (JNum n)]"
    and "query_parseInt_waitFor q = Inl err \<Longrightarrow> primary_calls (snd (get_scrape e q)) = []"
proof -
  show "primary_calls (snd (get_scrape e q)) = [CallPuppeteer (query_url q) (JNum n)]"
    if parse: "query_parseInt_waitFor q = Inr n"
  proof -
    obtain r t where run: "scrapeWithPuppeteer e (query_url q) (JNum n) = (r, t)"
      by (cases "scrapeWithPuppeteer e (query_url q) (JNum n)")
    show ?thesis
      by (cases r)
        (simp_all add: get_scrape_primary [OF url flag parse run] puppeteer_run_calls [OF run])
  qed
  show "primary_calls (snd (get_scrape e q)) = []" if parse: "query_parseInt_waitFor q = Inl err"
    by (simp add: get_scrape_parse_throws [OF url flag parse])
  show "fallback_calls (snd (get_scrape e q)) = []"
  proof (cases "query_parseInt_waitFor q")
    case (Inl err')
    then show ?thesis
      by (simp add: get_scrape_parse_throws [OF url flag Inl])
  next
    case (Inr n')
    obtain r t where run: "scrapeWithPuppeteer e (query_url q) (JNum n') = (r, t)"
      by (cases "scrapeWithPuppeteer e (query_url q) (JNum n')")
    show ?thesis
      by (cases r)
        (simp_all add: get_scrape_primary [OF url flag Inr run] puppeteer_run_calls [OF run])
  qed
qed

text \<open>The query flag selects the fallback only as the string \<open>''true''\<close>.\<close>

lemma query_flag_iff:
  "strict_eq_str (query_useScraperAPI q) ''true'' \<longleftrightarrow> q ''useScraperAPI'' = Some (QStr ''true'')"
proof (cases "q ''useScraperAPI''")
  case None
  then show ?thesis
    by (simp add: query_useScraperAPI_def get_query_def with_default_def)
next
  case (Some v)
  then show ?thesis
    by (cases v) (simp_all add: query_useScraperAPI_def get_query_def with_default_def)
qed

section \<open>The structured-body endpoint falls back once\<close>

text \<open>
  C1. A \<^verbatim>\<open>POST /render\<close> whose url is truthy (every non-empty string is) and whose
  \<^verbatim>\<open>useScraperAPI\<close> is falsy (absent or \<^verbatim>\<open>false\<close>), where \<^verbatim>\<open>scrapeWithPuppeteer\<close>
  rejects and \<^verbatim>\<open>scrapeWithScraperAPI\<close> resolves: the response is 200 with method
  \<^verbatim>\<open>ScraperAPI (fallback)\<close> and a \<^verbatim>\<open>warning\<close> field, and the run enters the fallback
  strategy exactly once (and the primary strategy once).
\<close>

theorem C1_auto_fallback_success:
  assumes url: "truthy (body_url b)"
    and flag: "\<not> truthy (body_useScraperAPI b)"
    and prim: "scrapeWithPuppeteer e (body_url b) (body_waitFor b) = (Inl perr, tp)"
    and fb: "scrapeWithScraperAPI e (body_url b) = (Inr html, tf)"
  shows "fst (post_render e b) =
           \<lparr>status = 200,
            body = [(''success'', JBool True),
                    (''url'', body_url b),
                    (''html'', html),
                    (''method'', JStr ''ScraperAPI (fallback)''),
                    (''warning'', JStr ''Puppeteer failed, used fallback''),
                    (''timestamp'', JStr (now_ISO e))]\<rparr>
         \<and> fallback_calls (snd (post_render e b)) = [CallScraperAPI (body_url b)]
         \<and> primary_calls (snd (post_render e b)) = [CallPuppeteer (body_url b) (body_waitFor b)]"
  by (simp add: post_render_primary_fails [OF url flag prim fb]
        puppeteer_run_calls [OF prim] scraper_run_calls [OF fb])

theorem C1_auto_fallback_success_witness:
  "truthy (body_url req_plain) \<and> \<not> truthy (body_useScraperAPI req_plain)
   \<and> fst (scrapeWithPuppeteer env_goto_fails (body_url req_plain) (body_waitFor req_plain))
       = Inl (Error ''net::ERR_NAME_NOT_RESOLVED'')
   \<and> fst (scrapeWithScraperAPI env_goto_fails (body_url req_plain))
       = Inr (JStr ''<html><body>remote</body></html>'')
   \<and> fst (post_render env_goto_fails req_plain) =
       \<lparr>status = 200,
        body = [(''success'', JBool True),
                (''url'', JStr ''https://example.com''),
                (''html'', JStr ''<html><body>remote</body></html>''),
                (''method'', JStr ''ScraperAPI (fallback)''),
                (''warning'', JStr ''Puppeteer failed, used fallback''),
                (''timestamp'', JStr ''2024-01-01T00:00:00.000Z'')]\<rparr>
   \<and> fallback_calls (snd (post_render env_goto_fails req_plain))
       = [CallScraperAPI (JStr ''https://example.com'')]
   \<and> primary_calls (snd (post_render env_goto_fails req_plain))
       = [CallPuppeteer (JStr ''https://example.com'') (JNum (Fin 2000))]"
proof -
  obtain tp where prim:
    "scrapeWithPuppeteer env_goto_fails (body_url req_plain) (body_waitFor req_plain)
       = (Inl (Error ''net::ERR_NAME_NOT_RESOLVED''), tp)"
    using sample_primary_goto_fails by auto
  obtain tf where fb:
    "scrapeWithScraperAPI env_goto_fails (body_url req_plain)
       = (Inr (JStr ''<html><body>remote</body></html>''), tf)"
    using sample_fallback_ok(1) by auto
  have url: "truthy (body_url req_plain)" and flag: "\<not> truthy (body_useScraperAPI req_plain)"
    by simp_all
  have vals: "now_ISO env_goto_fails = ''2024-01-01T00:00:00.000Z''"
    "example_url = JStr ''https://example.com''"
    by (simp_all add: sample_defs)
  from C1_auto_fallback_success [OF url flag prim fb] url flag prim fb show ?thesis
    by (simp add: vals)
qed

text \<open>
  C2. A \<^verbatim>\<open>POST /render\<close> whose url is truthy and whose \<^verbatim>\<open>useScraperAPI\<close> is falsy,
  where both strategies reject: the response is 500 and its body carries the message of
  the primary error and the message of the fallback error, unchanged.
\<close>

theorem C2_both_fail:
  assumes url: "truthy (body_url b)"
    and flag: "\<not> truthy (body_useScraperAPI b)"
    and prim: "scrapeWithPuppeteer e (body_url b) (body_waitFor b) = (Inl perr, tp)"
    and fb: "scrapeWithScraperAPI e (body_url b) = (Inl ferr, tf)"
  shows "fst (post_render e b) =
           \<lparr>status = 500,
            body = [(''error'', JStr ''Both Puppeteer and ScraperAPI failed''),
                    (''puppeteerError'', JStr (message perr)),
                    (''scraperApiError'', JStr (message ferr))]\<rparr>"
  by (simp add: post_render_primary_fails [OF url flag prim fb])

theorem C2_both_fail_witness:
  "truthy (body_url req_plain) \<and> \<not> truthy (body_useScraperAPI req_plain)
   \<and> fst (scrapeWithPuppeteer env_both_fail (body_url req_plain) (body_waitFor req_plain))
       = Inl (Error ''net::ERR_NAME_NOT_RESOLVED'')
   \<and> fst (scrapeWithScraperAPI env_both_fail (body_url req_plain))
       = Inl (Error ''Request failed with status code 500'')
   \<and> fst (post_render env_both_fail req_plain) =
       \<lparr>status = 500,
        body = [(''error'', JStr ''Both Puppeteer and ScraperAPI failed''),
                (''puppeteerError'', JStr ''net::ERR_NAME_NOT_RESOLVED''),
                (''scraperApiError'', JStr ''Request failed with status code 500'')]\<rparr>"
proof -
  obtain tp where prim:
    "scrapeWithPuppeteer env_both_fail (body_url req_plain) (body_waitFor req_plain)
       = (Inl (Error ''net::ERR_NAME_NOT_RESOLVED''), tp)"
    using sample_primary_both_fail by auto
  obtain tf where fb:
    "scrapeWithScraperAPI env_both_fail (body_url req_plain)
       = (Inl (Error ''Request failed with status code 500''), tf)"
    using sample_fallback_fails(1) by auto
  have url: "truthy (body_url req_plain)" and flag: "\<not> truthy (body_useScraperAPI req_plain)"
    by simp_all
  from C2_both_fail [OF url flag prim fb] url flag prim fb show ?thesis
    by simp
qed

section \<open>A forced fallback never enters the primary strategy\<close>

text \<open>
  C3. When \<^verbatim>\<open>useScraperAPI\<close> is truthy on \<^verbatim>\<open>POST /render\<close> (the JSON boolean
  \<^verbatim>\<open>true\<close> is) or is the string \<^verbatim>\<open>"true"\<close> on \<^verbatim>\<open>GET /scrape\<close>, the run never
  enters \<^verbatim>\<open>scrapeWithPuppeteer\<close>. If the url is truthy and \<^verbatim>\<open>scrapeWithScraperAPI\<close>
  rejects, the response is 500 with body \<^verbatim>\<open>{error: "Scraping failed", message}\<close>, and
  the fallback strategy was entered once: nothing is tried after it.
\<close>

theorem C3_forced_fallback:
  "(truthy (body_useScraperAPI b) \<longrightarrow>
      primary_calls (snd (post_render e b)) = []
      \<and> (truthy (body_url b) \<and> scrapeWithScraperAPI e (body_url b) = (Inl err, tf) \<longrightarrow>
           fst (post_render e b) =
             \<lparr>status = 500,
              body = [(''error'', JStr ''Scraping failed''), (''message'', JStr (message err))]\<rparr>
           \<and> fallback_calls (snd (post_render e b)) = [CallScraperAPI (body_url b)]))
   \<and> (q ''useScraperAPI'' = Some (QStr ''true'') \<longrightarrow>
      primary_calls (snd (get_scrape e q)) = []
      \<and> (truthy (query_url q) \<and> scrapeWithScraperAPI e (query_url q) = (Inl err, tf) \<longrightarrow>
           fst (get_scrape e q) =
             \<lparr>status = 500,
              body = [(''error'', JStr ''Scraping failed''), (''message'', JStr (message err))]\<rparr>
           \<and> fallback_calls (snd (get_scrape e q)) = [CallScraperAPI (query_url q)]))"
proof -
  have post_none: "primary_calls (snd (post_render e b)) = []" if flag: "truthy (body_useScraperAPI b)"
  proof (cases "truthy (body_url b)")
    case False
    then show ?thesis by (simp add: post_render_no_url)
  next
    case True
    obtain r t where run: "scrapeWithScraperAPI e (body_url b) = (r, t)"
      by (cases "scrapeWithScraperAPI e (body_url b)")
    show ?thesis
      by (cases r) (simp_all add: post_render_forced [OF True flag run] scraper_run_calls [OF run])
  qed
  have post_fail: "fst (post_render e b) =
             \<lparr>status = 500,
              body = [(''error'', JStr ''Scraping failed''), (''message'', JStr (message err))]\<rparr>
           \<and> fallback_calls (snd (post_render e b)) = [CallScraperAPI (body_url b)]"
    if flag: "truthy (body_useScraperAPI b)" and url: "truthy (body_url b)"
      and run: "scrapeWithScraperAPI e (body_url b) = (Inl err, tf)"
    by (simp add: post_render_forced [OF url flag run] scraper_run_calls [OF run])
  have get_none: "primary_calls (snd (get_scrape e q)) = []"
    if flag: "strict_eq_str (query_useScraperAPI q) ''true''"
  proof (cases "truthy (query_url q)")
    case False
    then show ?thesis by (simp add: get_scrape_no_url)
  next
    case True
    obtain r t where run: "scrapeWithScraperAPI e (query_url q) = (r, t)"
      by (cases "scrapeWithScraperAPI e (query_url q)")
    show ?thesis
      by (cases r) (simp_all add: get_scrape_forced [OF True flag run] scraper_run_calls [OF run])
  qed
  have get_fail: "fst (get_scrape e q) =
             \<lparr>status = 500,
              body = [(''error'', JStr ''Scraping failed''), (''message'', JStr (message err))]\<rparr>
           \<and> fallback_calls (snd (get_scrape e q)) = [CallScraperAPI (query_url q)]"
    if flag: "strict_eq_str (query_useScraperAPI q) ''true''" and url: "truthy (query_url q)"
      and run: "scrapeWithScraperAPI e (query_url q) = (Inl err, tf)"
    by (simp add: get_scrape_forced [OF url flag run] scraper_run_calls [OF run])
  show ?thesis
    using post_none post_fail get_none get_fail unfolding query_flag_iff [symmetric] by blast
qed

theorem C3_forced_fallback_witness:
  "truthy (body_useScraperAPI req_forced) \<and> truthy (body_url req_forced)
   \<and> fst (scrapeWithScraperAPI env_remote_fails (body_url req_forced))
       = Inl (Error ''Request failed with status code 500'')
   \<and> primary_calls (snd (post_render env_remote_fails req_forced)) = []
   \<and> fst (post_render env_remote_fails req_forced) =
       \<lparr>status = 500,
        body = [(''error'', JStr ''Scraping failed''),
                (''message'', JStr ''Request failed with status code 500'')]\<rparr>
   \<and> fallback_calls (snd (post_render env_remote_fails req_forced))
       = [CallScraperAPI (JStr ''https://example.com'')]
   \<and> query_forced ''useScraperAPI'' = Some (QStr ''true'') \<and> truthy (query_url query_forced)
   \<and> primary_calls (snd (get_scrape env_remote_fails query_forced)) = []
   \<and> fst (get_scrape env_remote_fails query_forced) =
       \<lparr>status = 500,
        body = [(''error'', JStr ''Scraping failed''),
                (''message'', JStr ''Request failed with status code 500'')]\<rparr>
   \<and> fallback_calls (snd (get_scrape env_remote_fails query_forced))
       = [CallScraperAPI (JStr ''https://example.com'')]"
proof -
  obtain tf where fb:
    "scrapeWithScraperAPI env_remote_fails example_url
       = (Inl (Error ''Request failed with status code 500''), tf)"
    using sample_fallback_fails(2) by auto
  have qflag: "query_forced ''useScraperAPI'' = Some (QStr ''true'')"
    by (simp add: query_forced_def)
  have vals: "example_url = JStr ''https://example.com''"
    by (simp add: example_url_def)
  from C3_forced_fallback [where e = env_remote_fails and b = req_forced
      and q = query_forced and err = "Error ''Request failed with status code 500''" and tf = tf]
    fb qflag
  show ?thesis
    by (simp add: vals)
qed

section \<open>A successful primary strategy\<close>

text \<open>
  C4. On either endpoint, when the url is truthy, the primary strategy is the one selected
  and \<^verbatim>\<open>scrapeWithPuppeteer\<close> resolves with \<open>html\<close>: the response is 200 with
  \<^verbatim>\<open>success: true\<close>, the request's url, \<open>html\<close>, method \<^verbatim>\<open>Puppeteer\<close> and a timestamp,
  and the run never enters the fallback strategy. On \<^verbatim>\<open>GET /scrape\<close> the primary strategy
  is entered with the number \<open>n\<close> that \<^verbatim>\<open>parseInt(waitFor)\<close> returned.
\<close>

theorem C4_primary_success:
  "(truthy (body_url b) \<and> \<not> truthy (body_useScraperAPI b)
      \<and> scrapeWithPuppeteer e (body_url b) (body_waitFor b) = (Inr html, t) \<longrightarrow>
      fst (post_render e b) =
        \<lparr>status = 200,
         body = [(''success'', JBool True), (''url'', body_url b), (''html'', html),
                 (''method'', JStr ''Puppeteer''), (''timestamp'', JStr (now_ISO e))]\<rparr>
      \<and> fallback_calls (snd (post_render e b)) = [])
   \<and> (truthy (query_url q) \<and> q ''useScraperAPI'' \<noteq> Some (QStr ''true'')
      \<and> query_parseInt_waitFor q = Inr n
      \<and> scrapeWithPuppeteer e (query_url q) (JNum n) = (Inr html', t') \<longrightarrow>
      fst (get_scrape e q) =
        \<lparr>status = 200,
         body = [(''success'', JBool True), (''url'', query_url q), (''html'', html'),
                 (''method'', JStr ''Puppeteer''), (''timestamp'', JStr (now_ISO e))]\<rparr>
      \<and> fallback_calls (snd (get_scrape e q)) = [])"
proof -
  have post: "fst (post_render e b) =
        \<lparr>status = 200,
         body = [(''success'', JBool True), (''url'', body_url b), (''html'', html),
                 (''method'', JStr ''Puppeteer''), (''timestamp'', JStr (now_ISO e))]\<rparr>
      \<and> fallback_calls (snd (post_render e b)) = []"
    if url: "truthy (body_url b)" and flag: "\<not> truthy (body_useScraperAPI b)"
      and run: "scrapeWithPuppeteer e (body_url b) (body_waitFor b) = (Inr html, t)"
    by (simp add: post_render_primary_ok [OF url flag run] puppeteer_run_calls [OF run])
  have get: "fst (get_scrape e q) =
        \<lparr>status = 200,
         body = [(''success'', JBool True), (''url'', query_url q), (''html'', html'),
                 (''method'', JStr ''Puppeteer''), (''timestamp'', JStr (now_ISO e))]\<rparr>
      \<and> fallback_calls (snd (get_scrape e q)) = []"
    if url: "truthy (query_url q)" and flag: "\<not> strict_eq_str (query_useScraperAPI q) ''true''"
      and parse: "query_parseInt_waitFor q = Inr n"
      and run: "scrapeWithPuppeteer e (query_url q) (JNum n) = (Inr html', t')"
    by (simp add: get_scrape_primary [OF url flag parse run] puppeteer_run_calls [OF run])
  show ?thesis
    using post get unfolding query_flag_iff [symmetric] by blast
qed

theorem C4_primary_success_witness:
  "truthy (body_url req_plain) \<and> \<not> truthy (body_useScraperAPI req_plain)
   \<and> fst (scrapeWithPuppeteer env_ok (body_url req_plain) (body_waitFor req_plain))
       = Inr (JStr ''<html><body>rendered</body></html>'')
   \<and> fst (post_render env_ok req_plain) =
       \<lparr>status = 200,
        body = [(''success'', JBool True), (''url'', JStr ''https://example.com''),
                (''html'', JStr ''<html><body>rendered</body></html>''),
                (''method'', JStr ''Puppeteer''),
                (''timestamp'', JStr ''2024-01-01T00:00:00.000Z'')]\<rparr>
   \<and> fallback_calls (snd (post_render env_ok req_plain)) = []
   \<and> truthy (query_url query_plain) \<and> query_plain ''useScraperAPI'' \<noteq> Some (QStr ''true'')
   \<and> query_parseInt_waitFor query_plain = Inr (Fin 2000)
   \<and> fst (scrapeWithPuppeteer env_ok (query_url query_plain) (JNum (Fin 2000)))
       = Inr (JStr ''<html><body>rendered</body></html>'')
   \<and> fst (get_scrape env_ok query_plain) =
       \<lparr>status = 200,
        body = [(''success'', JBool True), (''url'', JStr ''https://example.com''),
                (''html'', JStr ''<html><body>rendered</body></html>''),
                (''method'', JStr ''Puppeteer''),
                (''timestamp'', JStr ''2024-01-01T00:00:00.000Z'')]\<rparr>
   \<and> fallback_calls (snd (get_scrape env_ok query_plain)) = []"
proof -
  obtain t where p1:
    "scrapeWithPuppeteer env_ok example_url (JNum (Fin 2000))
       = (Inr (JStr ''<html><body>rendered</body></html>''), t)"
    using sample_primary_ok [of "JNum (Fin 2000)"] by auto
  have qflag: "query_plain ''useScraperAPI'' \<noteq> Some (QStr ''true'')"
    by (simp add: query_plain_def)
  have vals: "now_ISO env_ok = ''2024-01-01T00:00:00.000Z''"
    "example_url = JStr ''https://example.com''"
    by (simp_all add: sample_defs)
  from C4_primary_success [where e = env_ok and b = req_plain and q = query_plain
      and html = "JStr ''<html><body>rendered</body></html>''" and t = t
      and n = "Fin 2000"
      and html' = "JStr ''<html><body>rendered</body></html>''" and t' = t]
    p1 qflag
  show ?thesis
    by (simp add: vals)
qed

section \<open>Requests without a url\<close>

text \<open>
  C5. On either endpoint a request whose url is falsy gets status 400 with an
  \<^verbatim>\<open>error\<close> body, and the run performs no event at all, so it enters neither strategy.
  A missing url and the empty string are both falsy.
\<close>

theorem C5_missing_url:
  "(b ''url'' = None \<or> b ''url'' = Some (JStr '''') \<longrightarrow> \<not> truthy (body_url b))
   \<and> (\<not> truthy (body_url b) \<longrightarrow>
        fst (post_render e b) = \<lparr>status = 400, body = [(''error'', JStr ''URL is required'')]\<rparr>
        \<and> snd (post_render e b) = []
        \<and> primary_calls (snd (post_render e b)) = []
        \<and> fallback_calls (snd (post_render e b)) = [])
   \<and> (q ''url'' = None \<or> q ''url'' = Some (QStr '''') \<longrightarrow> \<not> truthy (query_url q))
   \<and> (\<not> truthy (query_url q) \<longrightarrow>
        fst (get_scrape e q) =
          \<lparr>status = 400, body = [(''error'', JStr ''URL parameter is required'')]\<rparr>
        \<and> snd (get_scrape e q) = []
        \<and> primary_calls (snd (get_scrape e q)) = []
        \<and> fallback_calls (snd (get_scrape e q)) = [])"
proof -
  have b_falsy: "\<not> truthy (body_url b)" if "b ''url'' = None \<or> b ''url'' = Some (JStr '''')"
    using that by (auto simp: body_url_def get_field_def)
  have q_falsy: "\<not> truthy (query_url q)" if "q ''url'' = None \<or> q ''url'' = Some (QStr '''')"
    using that by (auto simp: query_url_def get_query_def)
  have post: "fst (post_render e b) = \<lparr>status = 400, body = [(''error'', JStr ''URL is required'')]\<rparr>
        \<and> snd (post_render e b) = []" if "\<not> truthy (body_url b)"
    by (simp add: post_render_no_url [OF that])
  have get: "fst (get_scrape e q) =
          \<lparr>status = 400, body = [(''error'', JStr ''URL parameter is required'')]\<rparr>
        \<and> snd (get_scrape e q) = []" if "\<not> truthy (query_url q)"
    by (simp add: get_scrape_no_url [OF that])
  have post_calls: "primary_calls (snd (post_render e b)) = []
        \<and> fallback_calls (snd (post_render e b)) = []" if "\<not> truthy (body_url b)"
    by (simp add: post_render_no_url [OF that])
  have get_calls: "primary_calls (snd (get_scrape e q)) = []
        \<and> fallback_calls (snd (get_scrape e q)) = []" if "\<not> truthy (query_url q)"
    by (simp add: get_scrape_no_url [OF that])
  show ?thesis
    using b_falsy q_falsy post get post_calls get_calls by blast
qed

theorem C5_missing_url_witness:
  "Map.empty ''url'' = (None :: jsval option)
   \<and> fst (post_render env_ok Map.empty) =
       \<lparr>status = 400, body = [(''error'', JStr ''URL is required'')]\<rparr>
   \<and> snd (post_render env_ok Map.empty) = []
   \<and> [''url'' \<mapsto> QStr ''''] ''url'' = Some (QStr '''')
   \<and> fst (get_scrape env_ok [''url'' \<mapsto> QStr '''']) =
       \<lparr>status = 400, body = [(''error'', JStr ''URL parameter is required'')]\<rparr>
   \<and> snd (get_scrape env_ok [''url'' \<mapsto> QStr '''']) = []"
  using C5_missing_url [where e = env_ok and b = Map.empty and q = "[''url'' \<mapsto> QStr '''']"]
  by simp

section \<open>The query endpoint does not fall back\<close>

text \<open>
  C6. A \<^verbatim>\<open>GET /scrape\<close> whose url is truthy and whose \<^verbatim>\<open>useScraperAPI\<close> is not the
  string \<^verbatim>\<open>"true"\<close> never enters the fallback strategy. When \<^verbatim>\<open>scrapeWithPuppeteer\<close>
  rejects, the response is 500 with body \<^verbatim>\<open>{error: "Scraping failed", message}\<close>, the
  message being that of the primary error. When \<^verbatim>\<open>parseInt(waitFor)\<close> throws before the
  primary strategy is entered, the response has the same shape with the message of that
  error, and no strategy is entered.
\<close>

theorem C6_get_primary_failure_terminal:
  assumes url: "truthy (query_url q)"
    and flag: "q ''useScraperAPI'' \<noteq> Some (QStr ''true'')"
  shows "fallback_calls (snd (get_scrape e q)) = []
         \<and> (query_parseInt_waitFor q = Inr n
              \<and> scrapeWithPuppeteer e (query_url q) (JNum n) = (Inl err, t) \<longrightarrow>
            fst (get_scrape e q) =
              \<lparr>status = 500,
               body = [(''error'', JStr ''Scraping failed''), (''message'', JStr (message err))]\<rparr>
            \<and> primary_calls (snd (get_scrape e q)) = [CallPuppeteer (query_url q) (JNum n)])
         \<and> (query_parseInt_waitFor q = Inl err' \<longrightarrow>
            fst (get_scrape e q) =
              \<lparr>status = 500,
               body = [(''error'', JStr ''Scraping failed''), (''message'', JStr (message err'))]\<rparr>
            \<and> primary_calls (snd (get_scrape e q)) = [])"
proof -
  have flag': "\<not> strict_eq_str (query_useScraperAPI q) ''true''"
    using flag by (simp add: query_flag_iff)
  have none: "fallback_calls (snd (get_scrape e q)) = []"
    by (rule get_scrape_primary_calls(1) [OF url flag'])
  have fails: "fst (get_scrape e q) =
              \<lparr>status = 500,
               body = [(''error'', JStr ''Scraping failed''), (''message'', JStr (message err))]\<rparr>
            \<and> primary_calls (snd (get_scrape e q)) = [CallPuppeteer (query_url q) (JNum n)]"
    if parse: "query_parseInt_waitFor q = Inr n"
      and prim: "scrapeWithPuppeteer e (query_url q) (JNum n) = (Inl err, t)"
    by (simp add: get_scrape_primary [OF url flag' parse prim] puppeteer_run_calls [OF prim])
  have throws: "fst (get_scrape e q) =
              \<lparr>status = 500,
               body = [(''error'', JStr ''Scraping failed''), (''message'', JStr (message err'))]\<rparr>
            \<and> primary_calls (snd (get_scrape e q)) = []"
    if parse: "query_parseInt_waitFor q = Inl err'"
    by (simp add: get_scrape_parse_throws [OF url flag' parse])
  show ?thesis
    using none fails throws by blast
qed

theorem C6_get_primary_failure_terminal_witness:
  "truthy (query_url query_plain) \<and> query_plain ''useScraperAPI'' \<noteq> Some (QStr ''true'')
   \<and> query_parseInt_waitFor query_plain = Inr (Fin 2000)
   \<and> fst (scrapeWithPuppeteer env_goto_fails (query_url query_plain) (JNum (Fin 2000)))
       = Inl (Error ''net::ERR_NAME_NOT_RESOLVED'')
   \<and> fst (get_scrape env_goto_fails query_plain) =
       \<lparr>status = 500,
        body = [(''error'', JStr ''Scraping failed''),
                (''message'', JStr ''net::ERR_NAME_NOT_RESOLVED'')]\<rparr>
   \<and> fallback_calls (snd (get_scrape env_goto_fails query_plain)) = []
   \<and> truthy (query_url (query_toString_wait ''false''))
   \<and> query_toString_wait ''false'' ''useScraperAPI'' \<noteq> Some (QStr ''true'')
   \<and> query_parseInt_waitFor (query_toString_wait ''false'')
       = Inl (Error ''Cannot convert object to primitive value'')
   \<and> fst (get_scrape env_ok (query_toString_wait ''false'')) =
       \<lparr>status = 500,
        body = [(''error'', JStr ''Scraping failed''),
                (''message'', JStr ''Cannot convert object to primitive value'')]\<rparr>
   \<and> primary_calls (snd (get_scrape env_ok (query_toString_wait ''false''))) = []
   \<and> fallback_calls (snd (get_scrape env_ok (query_toString_wait ''false''))) = []"
proof -
  obtain t where prim:
    "scrapeWithPuppeteer env_goto_fails example_url (JNum (Fin 2000))
       = (Inl (Error ''net::ERR_NAME_NOT_RESOLVED''), t)"
    using sample_primary_goto_fails by auto
  have url: "truthy (query_url query_plain)"
    by simp
  have flag: "query_plain ''useScraperAPI'' \<noteq> Some (QStr ''true'')"
    by (simp add: query_plain_def)
  have url': "truthy (query_url (query_toString_wait ''false''))"
    by (simp add: query_url_def get_query_def query_toString_wait_def)
  have flag': "query_toString_wait ''false'' ''useScraperAPI'' \<noteq> Some (QStr ''true'')"
    by (simp add: query_toString_wait_def)
  from C6_get_primary_failure_terminal [OF url flag, of env_goto_fails "Fin 2000"
      "Error ''net::ERR_NAME_NOT_RESOLVED''" t]
    C6_get_primary_failure_terminal [OF url' flag', of env_ok _ _ _
      "Error ''Cannot convert object to primitive value''"]
    prim url flag url' flag'
  show ?thesis
    by simp
qed

section \<open>The query flag is compared with the string true\<close>

text \<open>
  C9, as stated, fails: a flag other than \<^verbatim>\<open>"true"\<close> does not always lead into the
  primary strategy. For \<^verbatim>\<open>?url=https://example.com&useScraperAPI=yes&waitFor[toString]=x\<close>
  the primary branch is taken, \<^verbatim>\<open>parseInt(waitFor)\<close> throws before
  \<^verbatim>\<open>scrapeWithPuppeteer\<close> is entered, and the response is 500 with no strategy entered.
\<close>

theorem C9_counterexample:
  "query_toString_wait ''yes'' ''useScraperAPI'' = Some (QStr ''yes'')
   \<and> truthy (query_url (query_toString_wait ''yes''))
   \<and> primary_calls (snd (get_scrape env_ok (query_toString_wait ''yes''))) = []
   \<and> fallback_calls (snd (get_scrape env_ok (query_toString_wait ''yes''))) = []
   \<and> fst (get_scrape env_ok (query_toString_wait ''yes'')) =
       \<lparr>status = 500,
        body = [(''error'', JStr ''Scraping failed''),
                (''message'', JStr ''Cannot convert object to primitive value'')]\<rparr>"
  by (simp add: get_scrape_def Let_def andThen_def status_json_def request_defs
        query_toString_wait_def primary_calls_def fallback_calls_def)

text \<open>
  C9, amended. On \<^verbatim>\<open>GET /scrape\<close> with a truthy url, the run enters the fallback strategy
  (and not the primary one) when the \<^verbatim>\<open>useScraperAPI\<close> parameter is exactly the string
  \<^verbatim>\<open>"true"\<close>. For any other value, and when the parameter is absent, it takes the primary
  branch: it never enters the fallback strategy, and it enters the primary strategy with
  the number \<^verbatim>\<open>parseInt(waitFor)\<close> returns, which it always does when \<^verbatim>\<open>waitFor\<close> is
  absent or a string. When \<^verbatim>\<open>parseInt(waitFor)\<close> throws, no strategy is entered and the
  response is 500.
\<close>

theorem C9_query_flag_selects_branch:
  assumes url: "truthy (query_url q)"
  shows "(q ''useScraperAPI'' = Some (QStr ''true'') \<longrightarrow>
            fallback_calls (snd (get_scrape e q)) = [CallScraperAPI (query_url q)]
            \<and> primary_calls (snd (get_scrape e q)) = [])
         \<and> (q ''useScraperAPI'' \<noteq> Some (QStr ''true'') \<longrightarrow>
            fallback_calls (snd (get_scrape e q)) = []
            \<and> (query_parseInt_waitFor q = Inr n \<longrightarrow>
                 primary_calls (snd (get_scrape e q)) = [CallPuppeteer (query_url q) (JNum n)])
            \<and> (q ''waitFor'' = None \<longrightarrow>
                 primary_calls (snd (get_scrape e q))
                   = [CallPuppeteer (query_url q) (JNum (Fin 2000))])
            \<and> (q ''waitFor'' = Some (QStr s) \<longrightarrow>
                 primary_calls (snd (get_scrape e q))
                   = [CallPuppeteer (query_url q) (JNum (parseInt s))])
            \<and> (query_parseInt_waitFor q = Inl err \<longrightarrow>
                 primary_calls (snd (get_scrape e q)) = []
                 \<and> fst (get_scrape e q) =
                     \<lparr>status = 500,
                      body = [(''error'', JStr ''Scraping failed''),
                              (''message'', JStr (message err))]\<rparr>))"
proof -
  have forced: "fallback_calls (snd (get_scrape e q)) = [CallScraperAPI (query_url q)]
            \<and> primary_calls (snd (get_scrape e q)) = []"
    if flag: "strict_eq_str (query_useScraperAPI q) ''true''"
  proof -
    obtain r t where run: "scrapeWithScraperAPI e (query_url q) = (r, t)"
      by (cases "scrapeWithScraperAPI e (query_url q)")
    show ?thesis
      by (cases r) (simp_all add: get_scrape_forced [OF url flag run] scraper_run_calls [OF run])
  qed
  have absent: "query_parseInt_waitFor q = Inr (Fin 2000)" if "q ''waitFor'' = None"
    using that by (simp add: query_parseInt_waitFor_def parseInt_samples)
  have plain: "query_parseInt_waitFor q = Inr (parseInt s)" if "q ''waitFor'' = Some (QStr s)"
    using that by (simp add: query_parseInt_waitFor_def)
  have other: "fallback_calls (snd (get_scrape e q)) = []
            \<and> (query_parseInt_waitFor q = Inr n \<longrightarrow>
                 primary_calls (snd (get_scrape e q)) = [CallPuppeteer (query_url q) (JNum n)])
            \<and> (q ''waitFor'' = None \<longrightarrow>
                 primary_calls (snd (get_scrape e q))
                   = [CallPuppeteer (query_url q) (JNum (Fin 2000))])
            \<and> (q ''waitFor'' = Some (QStr s) \<longrightarrow>
                 primary_calls (snd (get_scrape e q))
                   = [CallPuppeteer (query_url q) (JNum (parseInt s))])
            \<and> (query_parseInt_waitFor q = Inl err \<longrightarrow>
                 primary_calls (snd (get_scrape e q)) = []
                 \<and> fst (get_scrape e q) =
                     \<lparr>status = 500,
                      body = [(''error'', JStr ''Scraping failed''),
                              (''message'', JStr (message err))]\<rparr>)"
    if flag: "\<not> strict_eq_str (query_useScraperAPI q) ''true''"
  proof -
    have "fst (get_scrape e q) =
            \<lparr>status = 500,
             body = [(''error'', JStr ''Scraping failed''), (''message'', JStr (message err))]\<rparr>"
      if "query_parseInt_waitFor q = Inl err"
      by (simp add: get_scrape_parse_throws [OF url flag that])
    then show ?thesis
      using get_scrape_primary_calls [OF url flag] absent plain by metis
  qed
  show ?thesis
    using forced other unfolding query_flag_iff [symmetric] by blast
qed

theorem C9_query_flag_selects_branch_witness:
  "truthy (query_url (query_with_flag ''true''))
   \<and> fallback_calls (snd (get_scrape env_ok (query_with_flag ''true'')))
       = [CallScraperAPI (JStr ''https://example.com'')]
   \<and> primary_calls (snd (get_scrape env_ok (query_with_flag ''true''))) = []
   \<and> query_with_flag ''TRUE'' ''waitFor'' = None
   \<and> primary_calls (snd (get_scrape env_ok (query_with_flag ''TRUE'')))
       = [CallPuppeteer (JStr ''https://example.com'') (JNum (Fin 2000))]
   \<and> fallback_calls (snd (get_scrape env_ok (query_with_flag ''TRUE''))) = []
   \<and> primary_calls (snd (get_scrape env_ok (query_with_flag ''1'')))
       = [CallPuppeteer (JStr ''https://example.com'') (JNum (Fin 2000))]
   \<and> primary_calls (snd (get_scrape env_ok (query_with_flag ''yes'')))
       = [CallPuppeteer (JStr ''https://example.com'') (JNum (Fin 2000))]
   \<and> primary_calls (snd (get_scrape env_ok (query_with_flag '''')))
       = [CallPuppeteer (JStr ''https://example.com'') (JNum (Fin 2000))]
   \<and> query_with_wait ''12px'' ''waitFor'' = Some (QStr ''12px'')
   \<and> primary_calls (snd (get_scrape env_ok (query_with_wait ''12px'')))
       = [CallPuppeteer (JStr ''https://example.com'') (JNum (Fin 12))]
   \<and> query_parseInt_waitFor (query_toString_wait ''1'')
       = Inl (Error ''Cannot convert object to primitive value'')
   \<and> primary_calls (snd (get_scrape env_ok (query_toString_wait ''1''))) = []
   \<and> fallback_calls (snd (get_scrape env_ok (query_toString_wait ''1''))) = []"
proof -
  have url: "truthy (query_url (query_with_flag f))" "truthy (query_url (query_with_wait f))"
    "truthy (query_url (query_toString_wait f))" for f
    by (simp_all add: query_url_def get_query_def sample_defs query_toString_wait_def)
  have u: "query_url (query_with_flag f) = JStr ''https://example.com''"
    "query_url (query_with_wait f) = JStr ''https://example.com''" for f
    by (simp_all add: query_url_def get_query_def sample_defs)
  have flag: "query_with_flag f ''useScraperAPI'' = Some (QStr f)"
    "query_with_wait f ''useScraperAPI'' = None"
    "query_toString_wait f ''useScraperAPI'' = Some (QStr f)"
    "query_with_flag f ''waitFor'' = None"
    "query_with_wait f ''waitFor'' = Some (QStr f)" for f
    by (simp_all add: sample_defs query_toString_wait_def)
  from C9_query_flag_selects_branch [OF url(1), of "''true''" env_ok]
    C9_query_flag_selects_branch [OF url(1), of "''TRUE''" env_ok]
    C9_query_flag_selects_branch [OF url(1), of "''1''" env_ok]
    C9_query_flag_selects_branch [OF url(1), of "''yes''" env_ok]
    C9_query_flag_selects_branch [OF url(1), of "''''" env_ok]
    C9_query_flag_selects_branch [OF url(2), of "''12px''" env_ok _ "''12px''"]
    C9_query_flag_selects_branch [OF url(3), of "''1''" env_ok _ _
      "Error ''Cannot convert object to primitive value''"]
  show ?thesis
    by (simp add: u flag url parseInt_samples)
qed

section \<open>Method tags of the fallback strategy\<close>

text \<open>
  C10. A request that forces the fallback (\<^verbatim>\<open>useScraperAPI\<close> truthy on
  \<^verbatim>\<open>POST /render\<close>, the string \<^verbatim>\<open>"true"\<close> on \<^verbatim>\<open>GET /scrape\<close>) and succeeds is answered
  with method \<^verbatim>\<open>ScraperAPI\<close> and no \<^verbatim>\<open>warning\<close> field. A \<^verbatim>\<open>POST /render\<close> that
  succeeds through the automatic fallback is answered with method
  \<^verbatim>\<open>ScraperAPI (fallback)\<close> and a \<^verbatim>\<open>warning\<close> field.
\<close>

theorem C10_method_tags:
  "(truthy (body_url b) \<and> truthy (body_useScraperAPI b)
      \<and> scrapeWithScraperAPI e (body_url b) = (Inr html, t) \<longrightarrow>
      status (fst (post_render e b)) = 200
      \<and> map_of (body (fst (post_render e b))) ''method'' = Some (JStr ''ScraperAPI'')
      \<and> map_of (body (fst (post_render e b))) ''warning'' = None)
   \<and> (truthy (query_url q) \<and> q ''useScraperAPI'' = Some (QStr ''true'')
      \<and> scrapeWithScraperAPI e (query_url q) = (Inr html', t') \<longrightarrow>
      status (fst (get_scrape e q)) = 200
      \<and> map_of (body (fst (get_scrape e q))) ''method'' = Some (JStr ''ScraperAPI'')
      \<and> map_of (body (fst (get_scrape e q))) ''warning'' = None)
   \<and> (truthy (body_url b) \<and> \<not> truthy (body_useScraperAPI b)
      \<and> scrapeWithPuppeteer e (body_url b) (body_waitFor b) = (Inl perr, tp)
      \<and> scrapeWithScraperAPI e (body_url b) = (Inr html, t) \<longrightarrow>
      status (fst (post_render e b)) = 200
      \<and> map_of (body (fst (post_render e b))) ''method'' = Some (JStr ''ScraperAPI (fallback)'')
      \<and> map_of (body (fst (post_render e b))) ''warning''
          = Some (JStr ''Puppeteer failed, used fallback''))"
proof -
  have forced_post: "status (fst (post_render e b)) = 200
      \<and> map_of (body (fst (post_render e b))) ''method'' = Some (JStr ''ScraperAPI'')
      \<and> map_of (body (fst (post_render e b))) ''warning'' = None"
    if url: "truthy (body_url b)" and flag: "truthy (body_useScraperAPI b)"
      and run: "scrapeWithScraperAPI e (body_url b) = (Inr html, t)"
    by (simp add: post_render_forced [OF url flag run])
  have forced_get: "status (fst (get_scrape e q)) = 200
      \<and> map_of (body (fst (get_scrape e q))) ''method'' = Some (JStr ''ScraperAPI'')
      \<and> map_of (body (fst (get_scrape e q))) ''warning'' = None"
    if url: "truthy (query_url q)" and flag: "strict_eq_str (query_useScraperAPI q) ''true''"
      and run: "scrapeWithScraperAPI e (query_url q) = (Inr html', t')"
    by (simp add: get_scrape_forced [OF url flag run])
  have auto_post: "status (fst (post_render e b)) = 200
      \<and> map_of (body (fst (post_render e b))) ''method'' = Some (JStr ''ScraperAPI (fallback)'')
      \<and> map_of (body (fst (post_render e b))) ''warning''
          = Some (JStr ''Puppeteer failed, used fallback'')"
    if url: "truthy (body_url b)" and flag: "\<not> truthy (body_useScraperAPI b)"
      and prim: "scrapeWithPuppeteer e (body_url b) (body_waitFor b) = (Inl perr, tp)"
      and run: "scrapeWithScraperAPI e (body_url b) = (Inr html, t)"
    by (simp add: post_render_primary_fails [OF url flag prim run])
  show ?thesis
    using forced_post forced_get auto_post unfolding query_flag_iff [symmetric] by blast
qed

theorem C10_method_tags_witness:
  "truthy (body_url req_forced) \<and> truthy (body_useScraperAPI req_forced)
   \<and> fst (scrapeWithScraperAPI env_goto_fails (body_url req_forced))
       = Inr (JStr ''<html><body>remote</body></html>'')
   \<and> map_of (body (fst (post_render env_goto_fails req_forced))) ''method''
       = Some (JStr ''ScraperAPI'')
   \<and> map_of (body (fst (post_render env_goto_fails req_forced))) ''warning'' = None
   \<and> truthy (query_url query_forced) \<and> query_forced ''useScraperAPI'' = Some (QStr ''true'')
   \<and> map_of (body (fst (get_scrape env_goto_fails query_forced))) ''method''
       = Some (JStr ''ScraperAPI'')
   \<and> map_of (body (fst (get_scrape env_goto_fails query_forced))) ''warning'' = None
   \<and> \<not> truthy (body_useScraperAPI req_plain)
   \<and> fst (scrapeWithPuppeteer env_goto_fails (body_url req_plain) (body_waitFor req_plain))
       = Inl (Error ''net::ERR_NAME_NOT_RESOLVED'')
   \<and> map_of (body (fst (post_render env_goto_fails req_plain))) ''method''
       = Some (JStr ''ScraperAPI (fallback)'')
   \<and> map_of (body (fst (post_render env_goto_fails req_plain))) ''warning''
       = Some (JStr ''Puppeteer failed, used fallback'')"
proof -
  obtain tp where prim:
    "scrapeWithPuppeteer env_goto_fails example_url (JNum (Fin 2000))
       = (Inl (Error ''net::ERR_NAME_NOT_RESOLVED''), tp)"
    using sample_primary_goto_fails by auto
  obtain tf where fb:
    "scrapeWithScraperAPI env_goto_fails example_url
       = (Inr (JStr ''<html><body>remote</body></html>''), tf)"
    using sample_fallback_ok(1) by auto
  have qflag: "query_forced ''useScraperAPI'' = Some (QStr ''true'')"
    by (simp add: query_forced_def)
  from C10_method_tags [where e = env_goto_fails and b = req_forced and q = query_forced
      and html = "JStr ''<html><body>remote</body></html>''" and t = tf
      and html' = "JStr ''<html><body>remote</body></html>''" and t' = tf]
    C10_method_tags [where e = env_goto_fails and b = req_plain and q = query_forced
      and html = "JStr ''<html><body>remote</body></html>''" and t = tf
      and perr = "Error ''net::ERR_NAME_NOT_RESOLVED''" and tp = tp]
    prim fb qflag
  show ?thesis
    by simp
qed

section \<open>The wait duration\<close>

lemma wait_args_simps [simp]:
  "wait_args (s @ t) = wait_args s @ wait_args t"
  "wait_args [] = []"
  "wait_args (ConsoleError l m # t) = wait_args t"
  "wait_args (ConsoleLog m # t) = wait_args t"
  by (simp_all add: wait_args_def)

lemma puppeteer_wait_args [simp]:
  "wait_args (snd (scrapeWithPuppeteer e u w)) = [w]"
  by (auto simp: wait_args_def scrapeWithPuppeteer_def andThen_def try_finally_def
        step_def emit_def split: option.splits sum.splits prod.splits)

lemma scraper_wait_args [simp]:
  "wait_args (snd (scrapeWithScraperAPI e u)) = []"
  by (auto simp: wait_args_def scrapeWithScraperAPI_def andThen_def emit_def Let_def
        split: sum.splits prod.splits)

lemma puppeteer_timeout_args:
  "timeout_args (snd (scrapeWithPuppeteer e u w)) = []
   \<or> timeout_args (snd (scrapeWithPuppeteer e u w)) = [w]"
  by (auto simp: timeout_args_def scrapeWithPuppeteer_def andThen_def try_finally_def
        step_def emit_def split: option.splits sum.splits prod.splits)

text \<open>Once navigation has succeeded, \<^verbatim>\<open>page.waitForTimeout\<close> is called with the argument.\<close>

lemma puppeteer_timeout_reached:
  assumes "launch e = None" and "newPage e = None" and "setViewport e = None"
    and "setUserAgent e = None" and "goto e u = None"
  shows "timeout_args (snd (scrapeWithPuppeteer e u w)) = [w]"
  using assms
  by (auto simp: timeout_args_def scrapeWithPuppeteer_def andThen_def try_finally_def
        step_def emit_def split: option.splits sum.splits prod.splits)

lemma post_render_wait_args:
  assumes url: "truthy (body_url b)" and flag: "\<not> truthy (body_useScraperAPI b)"
  shows "wait_args (snd (post_render e b)) = [body_waitFor b]"
proof -
  obtain r t where prim: "scrapeWithPuppeteer e (body_url b) (body_waitFor b) = (r, t)"
    by (cases "scrapeWithPuppeteer e (body_url b) (body_waitFor b)")
  obtain r' t' where fb: "scrapeWithScraperAPI e (body_url b) = (r', t')"
    by (cases "scrapeWithScraperAPI e (body_url b)")
  have t: "wait_args t = [body_waitFor b]"
    using puppeteer_wait_args [of e "body_url b" "body_waitFor b"] by (simp add: prim)
  have t': "wait_args t' = []"
    using scraper_wait_args [of e "body_url b"] by (simp add: fb)
  show ?thesis
  proof (cases r)
    case (Inl perr)
    then show ?thesis
      using post_render_primary_fails [OF url flag _ fb, of perr t] prim by (simp add: t t')
  next
    case (Inr html)
    then show ?thesis
      using post_render_primary_ok [OF url flag, of e html t] prim by (simp add: t)
  qed
qed

lemma get_scrape_wait_args:
  assumes url: "truthy (query_url q)"
    and flag: "\<not> strict_eq_str (query_useScraperAPI q) ''true''"
  shows "query_parseInt_waitFor q = Inr n \<Longrightarrow> wait_args (snd (get_scrape e q)) = [JNum n]"
    and "query_parseInt_waitFor q = Inl err \<Longrightarrow> wait_args (snd (get_scrape e q)) = []"
proof -
  show "wait_args (snd (get_scrape e q)) = [JNum n]" if parse: "query_parseInt_waitFor q = Inr n"
  proof -
    obtain r t where prim: "scrapeWithPuppeteer e (query_url q) (JNum n) = (r, t)"
      by (cases "scrapeWithPuppeteer e (query_url q) (JNum n)")
    have t: "wait_args t = [JNum n]"
      using puppeteer_wait_args [of e "query_url q" "JNum n"] by (simp add: prim)
    show ?thesis
      by (cases r) (simp_all add: get_scrape_primary [OF url flag parse prim] t)
  qed
  show "wait_args (snd (get_scrape e q)) = []" if parse: "query_parseInt_waitFor q = Inl err"
    by (simp add: get_scrape_parse_throws [OF url flag parse])
qed

text \<open>
  C7, as stated, fails. \<^verbatim>\<open>POST /render\<close> with \<^verbatim>\<open>waitFor: "abc"\<close> enters the primary
  strategy with the string \<^verbatim>\<open>"abc"\<close>, not with 2000; \<^verbatim>\<open>GET /scrape\<close> with
  \<^verbatim>\<open>waitFor=abc\<close> enters it with NaN and with \<^verbatim>\<open>waitFor=-5\<close> with \<open>-5\<close>. None of
  these is a non-negative integer.
\<close>

theorem C7_counterexample:
  "wait_args (snd (post_render env_ok (req_with_wait (JStr ''abc'')))) = [JStr ''abc'']
   \<and> \<not> is_nonneg_int_ms (JStr ''abc'')
   \<and> JStr ''abc'' \<noteq> JNum (Fin 2000)
   \<and> wait_args (snd (get_scrape env_ok (query_with_wait ''abc''))) = [JNum NaN]
   \<and> \<not> is_nonneg_int_ms (JNum NaN)
   \<and> wait_args (snd (get_scrape env_ok (query_with_wait ''-5''))) = [JNum (Fin (- 5))]
   \<and> \<not> is_nonneg_int_ms (JNum (Fin (- 5)))"
proof -
  have post: "wait_args (snd (post_render env_ok (req_with_wait (JStr ''abc'')))) = [JStr ''abc'']"
    using post_render_wait_args [of "req_with_wait (JStr ''abc'')" env_ok]
    by (simp add: request_defs req_with_wait_def example_url_def)
  have get: "wait_args (snd (get_scrape env_ok (query_with_wait s))) = [JNum (parseInt s)]" for s
    using get_scrape_wait_args(1) [of "query_with_wait s" "parseInt s" env_ok]
    by (simp add: request_defs query_with_wait_def)
  show ?thesis
    by (simp add: post get parseInt_samples)
qed

text \<open>
  C7, amended. The wait duration is fixed once, at the endpoint, and validated nowhere.
  \<^verbatim>\<open>POST /render\<close> enters the primary strategy with the body's \<^verbatim>\<open>waitFor\<close> value as
  it is, of whatever type, and with 2000 when the field is absent. \<^verbatim>\<open>GET /scrape\<close>
  enters it with the number \<^verbatim>\<open>parseInt(waitFor)\<close> returns, which is 2000 when the
  parameter is absent; when \<^verbatim>\<open>parseInt(waitFor)\<close> throws, the primary strategy is not
  entered and no wait duration is passed. \<^verbatim>\<open>scrapeWithPuppeteer\<close> hands the value it
  received, unchanged, to \<^verbatim>\<open>page.waitForTimeout\<close>: it does so whenever the steps up to the
  navigation succeed, and it calls \<^verbatim>\<open>page.waitForTimeout\<close> with nothing else.
\<close>

theorem C7_wait_fixed_at_endpoint:
  "(truthy (body_url b) \<and> \<not> truthy (body_useScraperAPI b) \<longrightarrow>
      wait_args (snd (post_render e b)) = [body_waitFor b])
   \<and> (b ''waitFor'' = None \<longrightarrow> body_waitFor b = JNum (Fin 2000))
   \<and> (b ''waitFor'' = Some v \<and> v \<noteq> JUndefined \<longrightarrow> body_waitFor b = v)
   \<and> (truthy (query_url q) \<and> q ''useScraperAPI'' \<noteq> Some (QStr ''true'')
        \<and> query_parseInt_waitFor q = Inr n \<longrightarrow>
      wait_args (snd (get_scrape e q)) = [JNum n])
   \<and> (truthy (query_url q) \<and> q ''useScraperAPI'' \<noteq> Some (QStr ''true'')
        \<and> query_parseInt_waitFor q = Inl err \<longrightarrow>
      wait_args (snd (get_scrape e q)) = [])
   \<and> (q ''waitFor'' = None \<longrightarrow> query_parseInt_waitFor q = Inr (Fin 2000))
   \<and> (q ''waitFor'' = Some w \<longrightarrow> query_parseInt_waitFor q = map_sum id parseInt (qToString w))
   \<and> (launch e = None \<and> newPage e = None \<and> setViewport e = None \<and> setUserAgent e = None
        \<and> goto e u = None \<longrightarrow>
      timeout_args (snd (scrapeWithPuppeteer e u x)) = [x])
   \<and> (timeout_args (snd (scrapeWithPuppeteer e u x)) = []
      \<or> timeout_args (snd (scrapeWithPuppeteer e u x)) = [x])"
proof -
  have dflt: "body_waitFor b = JNum (Fin 2000)" if "b ''waitFor'' = None"
    using that by (simp add: body_waitFor_def get_field_def with_default_def)
  have given: "body_waitFor b = v" if "b ''waitFor'' = Some v \<and> v \<noteq> JUndefined"
    using that by (simp add: body_waitFor_def get_field_def with_default_def)
  have qdflt: "query_parseInt_waitFor q = Inr (Fin 2000)" if "q ''waitFor'' = None"
    using that by (simp add: query_parseInt_waitFor_def parseInt_samples)
  have qgiven: "query_parseInt_waitFor q = map_sum id parseInt (qToString w)"
    if "q ''waitFor'' = Some w"
    using that by (simp add: query_parseInt_waitFor_def)
  show ?thesis
    using post_render_wait_args [of b e] get_scrape_wait_args [where q = q and e = e]
      dflt given qdflt qgiven puppeteer_timeout_args [of e u x]
      puppeteer_timeout_reached [of e u x]
    unfolding query_flag_iff [symmetric] by blast
qed

theorem C7_wait_fixed_at_endpoint_witness:
  "truthy (body_url (req_with_wait (JNum (Fin (3 / 2)))))
   \<and> \<not> truthy (body_useScraperAPI (req_with_wait (JNum (Fin (3 / 2)))))
   \<and> wait_args (snd (post_render env_ok (req_with_wait (JNum (Fin (3 / 2))))))
       = [JNum (Fin (3 / 2))]
   \<and> req_plain ''waitFor'' = None
   \<and> wait_args (snd (post_render env_ok req_plain)) = [JNum (Fin 2000)]
   \<and> truthy (query_url (query_with_wait ''12px''))
   \<and> query_with_wait ''12px'' ''useScraperAPI'' \<noteq> Some (QStr ''true'')
   \<and> query_parseInt_waitFor (query_with_wait ''12px'') = Inr (Fin 12)
   \<and> wait_args (snd (get_scrape env_ok (query_with_wait ''12px''))) = [JNum (Fin 12)]
   \<and> query_plain ''waitFor'' = None
   \<and> wait_args (snd (get_scrape env_ok query_plain)) = [JNum (Fin 2000)]
   \<and> query_parseInt_waitFor (query_toString_wait ''false'')
       = Inl (Error ''Cannot convert object to primitive value'')
   \<and> wait_args (snd (get_scrape env_ok (query_toString_wait ''false''))) = []
   \<and> launch env_ok = None \<and> newPage env_ok = None \<and> setViewport env_ok = None
   \<and> setUserAgent env_ok = None \<and> goto env_ok example_url = None
   \<and> timeout_args (snd (scrapeWithPuppeteer env_ok example_url (JStr ''abc''))) = [JStr ''abc'']"
proof -
  have r1: "truthy (body_url (req_with_wait v))" "\<not> truthy (body_useScraperAPI (req_with_wait v))"
    "req_with_wait v ''waitFor'' = Some v" for v
    by (simp_all add: request_defs req_with_wait_def example_url_def)
  have r2: "req_plain ''waitFor'' = None" "query_plain ''waitFor'' = None"
    "query_plain ''useScraperAPI'' \<noteq> Some (QStr ''true'')"
    by (simp_all add: req_plain_def query_plain_def)
  have q1: "truthy (query_url (query_with_wait s))"
    "query_with_wait s ''useScraperAPI'' \<noteq> Some (QStr ''true'')"
    "query_with_wait s ''waitFor'' = Some (QStr s)"
    "truthy (query_url (query_toString_wait s))"
    "query_toString_wait ''false'' ''useScraperAPI'' \<noteq> Some (QStr ''true'')" for s
    by (simp_all add: query_url_def get_query_def query_with_wait_def query_toString_wait_def)
  have ok: "launch env_ok = None" "newPage env_ok = None" "setViewport env_ok = None"
    "setUserAgent env_ok = None" "goto env_ok example_url = None"
    by (simp_all add: env_ok_def)
  from C7_wait_fixed_at_endpoint [where e = env_ok and b = "req_with_wait (JNum (Fin (3 / 2)))"
      and v = "JNum (Fin (3 / 2))" and q = "query_with_wait ''12px''" and w = "QStr ''12px''"
      and n = "Fin 12" and u = example_url and x = "JStr ''abc''"]
    C7_wait_fixed_at_endpoint [where e = env_ok and b = req_plain and q = query_plain
      and n = "Fin 2000"]
    C7_wait_fixed_at_endpoint [where e = env_ok and q = "query_toString_wait ''false''"
      and err = "Error ''Cannot convert object to primitive value''"]
  show ?thesis
    by (simp add: r1 r2 q1 ok parseInt_samples)
qed

section \<open>Release of the browser\<close>

text \<open>
  C8. When \<^verbatim>\<open>browser.newPage()\<close> rejects, the browser has been launched and the
  \<^verbatim>\<open>try ... finally\<close> has not been entered: the run ends without
  \<^verbatim>\<open>browser.close()\<close>. When \<^verbatim>\<open>page.close()\<close> rejects inside the \<^verbatim>\<open>finally\<close>,
  \<^verbatim>\<open>browser.close()\<close> is skipped as well.
\<close>

theorem C8_browser_not_closed:
  "scrapeWithPuppeteer env_newPage_fails example_url (JNum (Fin 2000)) =
     (Inl (Error ''Protocol error (Target.createTarget)''),
      [CallPuppeteer example_url (JNum (Fin 2000)), Launch, NewPage])
   \<and> BrowserClose \<notin> set (snd (scrapeWithPuppeteer env_newPage_fails example_url (JNum (Fin 2000))))
   \<and> fst (scrapeWithPuppeteer env_page_close_fails example_url (JNum (Fin 2000))) =
       Inl (Error ''Protocol error: Connection closed'')
   \<and> last (snd (scrapeWithPuppeteer env_page_close_fails example_url (JNum (Fin 2000)))) = PageClose
   \<and> BrowserClose \<notin> set (snd (scrapeWithPuppeteer env_page_close_fails example_url (JNum (Fin 2000))))"
  by (simp add: run_defs sample_defs)

text \<open>
  What the \<^verbatim>\<open>finally\<close> block does guarantee: once the page exists, the page is closed,
  and if that succeeds the browser is closed right after it, as the last two events.
\<close>

lemma scrapeWithPuppeteer_cleanup:
  assumes "launch e = None" and "newPage e = None" and "page_close e = None"
  shows "\<exists>t. snd (scrapeWithPuppeteer e u w) = t @ [PageClose, BrowserClose]
             \<and> PageClose \<notin> set t \<and> BrowserClose \<notin> set t"
  using assms
  by (auto simp: scrapeWithPuppeteer_def andThen_def try_finally_def step_def emit_def
        split: option.splits sum.splits prod.splits)

end
